theory Spec2Isabelle
  imports Main
begin

section \<open>gi/pygi-async.c: the Async future of PyGObject\<close>

text \<open>
  This theory embeds the C functions of \<^verbatim>\<open>gi/pygi-async.c\<close>. A \<^verbatim>\<open>PyObject *\<close> is a
  \<open>pyobject option\<close> (\<open>None\<close> is the NULL pointer), the interpreter's thread state is the
  record \<open>interp\<close> that every function takes and returns, and the Python objects the file
  talks to (the event loop, the finish function, the callbacks, the exception classes) are
  given by a record \<open>runtime\<close> of their observable behaviour. A NULL dereference, a
  failed \<^verbatim>\<open>g_assert\<close> and the exit on SystemExit end the process inside the function:
  that outcome is \<open>Crash\<close>.
\<close>

subsection \<open>Objects, exceptions, calls\<close>

text \<open>
  \<open>PyObj n\<close> is a heap object known by its address only; \<open>PyExc name\<close> is one of the
  built-in exception classes (\<^verbatim>\<open>PyExc_TypeError\<close>, \<^verbatim>\<open>PyExc_StopIteration\<close>, ...);
  \<open>PyTuple\<close> is a tuple with its items. Equality of two \<open>pyobject\<close> values is object
  identity.
\<close>

datatype pyobject =
    Py_None
  | PyBool bool
  | PyLong int
  | PyUnicode string
  | PyExc string
  | PyTuple "pyobject list"
  | PyObj nat

text \<open>The error indicator: exception type, value (may be NULL) and traceback (may be NULL).\<close>

datatype pyerr = PyErr (exc_type: pyobject) (exc_value: "pyobject option")
  (exc_traceback: "pyobject option")

text \<open>One \<^verbatim>\<open>PyObject_Call (callable, args, kwargs)\<close>; \<open>call_kwargs = None\<close> is \<^verbatim>\<open>kwargs == NULL\<close>.\<close>

datatype call = Call (callee: pyobject) (call_args: "pyobject list")
  (call_kwargs: "(string \<times> pyobject) list option")

datatype 'a exec = Crash | Fin 'a

subsection \<open>The interpreter state\<close>

text \<open>
  \<open>curexc\<close> is the error indicator, \<open>ob_refcnt\<close> the reference counts, \<open>calls\<close> the
  calls made through \<^verbatim>\<open>PyObject_Call\<close> so far (oldest first), \<open>stderr_log\<close> the exceptions
  printed by \<^verbatim>\<open>PyErr_PrintEx\<close>, \<open>gilstate\<close> the nesting depth of \<^verbatim>\<open>PyGILState_Ensure\<close>. The
  last three fields are the file's static variables; \<open>cancellable_info\<close> starts as NULL and
  is filled by the first \<open>async_init\<close>.
\<close>

record interp =
  initialized :: bool
  gilstate :: nat
  curexc :: "pyerr option"
  ob_refcnt :: "pyobject \<Rightarrow> int"
  calls :: "call list"
  stderr_log :: "pyerr list"
  current_context :: pyobject
  asyncio_InvalidStateError :: pyobject
  asyncio_get_event_loop :: pyobject
  cancellable_info :: "pyobject option"

subsection \<open>The collaborators\<close>

text \<open>
  What this file cannot see of the objects it uses. A Python-level operation that can
  raise returns \<open>Inl\<close> of the exception it raised. \<open>object_call\<close> gets the calls made
  before, so the same call may succeed once and fail later. \<open>rich_compare_eq\<close> gets the
  exception that is pending when the comparison is made: a comparison written in Python
  fails when it is run while an exception is pending, one written in C does not notice.
  \<open>PY_VERSION_HEX\<close> is the
  version the file is compiled against; the \<^verbatim>\<open>#if PY_VERSION_HEX >= 0x03070000\<close> branches
  test it. Allocation failures (of tuples, dicts, strings, integers, the GArray, a copied
  context, a GObject wrapper) are outside the model. An argument tuple is the list of
  its items; the references it takes when built and drops when cleared cancel and are
  not counted. A call into Python acts on the interpreter through what it returns or
  raises only: it does not reach back into the future it was made from.
\<close>

record runtime =
  PY_VERSION_HEX :: nat
  getattr_string :: "pyobject \<Rightarrow> string \<Rightarrow> pyerr + pyobject"
  object_call :: "call list \<Rightarrow> call \<Rightarrow> pyerr + pyobject"
  rich_compare_eq :: "pyerr option \<Rightarrow> pyobject \<Rightarrow> pyobject \<Rightarrow> pyerr + bool"
  is_instance :: "pyobject \<Rightarrow> pyobject \<Rightarrow> pyerr + bool"
  py_type :: "pyobject \<Rightarrow> pyobject"
  type_check :: "pyobject \<Rightarrow> pyobject \<Rightarrow> bool"
  PyGICallableInfo_Type :: pyobject
  PyGObject_Type :: pyobject
  base_info_fullname :: "pyobject \<Rightarrow> string"
  context_copy :: "pyobject \<Rightarrow> pyobject"
  import_module :: "string \<Rightarrow> pyerr + pyobject"
  callable_info_invoke :: "pyobject \<Rightarrow> pyobject list \<Rightarrow> pyerr + pyobject"
  gobject_wrapper :: "nat \<Rightarrow> pyobject"
  va_indeterminate :: int

text \<open>Context support. (The module imports \<open>asyncio.exceptions\<close> when it is
  registered, which exists from Python 3.8 on, so wherever the module loads the
  condition holds.)\<close>

definition has_context :: "runtime \<Rightarrow> bool" where
  \<comment> \<open>\<^verbatim>\<open>#if PY_VERSION_HEX >= 0x03070000\<close>; 0x03070000 is 50790400\<close>
  "has_context rt = (50790400 \<le> PY_VERSION_HEX rt)"

subsection \<open>The structs\<close>

text \<open>
  \<^verbatim>\<open>PyGIAsyncCallback\<close> and \<^verbatim>\<open>PyGIAsync\<close>, with the fields the C file reads and writes.
  \<open>ob_self\<close> stands for the object header: the address of the struct as a
  \<^verbatim>\<open>PyObject *\<close>. \<open>callbacks\<close> is the \<^verbatim>\<open>GArray *\<close>: NULL, or the entries in order.
  \<open>asyncio_future_blocking\<close> is the C field \<^verbatim>\<open>_asyncio_future_blocking\<close>.
\<close>

record PyGIAsyncCallback =
  cb_func :: pyobject
  cb_context :: "pyobject option"

record PyGIAsync =
  ob_self :: pyobject
  finish_func :: "pyobject option"
  loop :: "pyobject option"
  cancellable :: "pyobject option"
  asyncio_future_blocking :: bool
  result :: "pyobject option"
  exception :: "pyobject option"
  callbacks :: "PyGIAsyncCallback list option"

subsection \<open>The C API the file calls\<close>

definition Py_INCREF :: "pyobject \<Rightarrow> interp \<Rightarrow> interp" where
  "Py_INCREF ob st = st\<lparr>ob_refcnt := (ob_refcnt st)(ob := ob_refcnt st ob + 1)\<rparr>"

definition Py_DECREF :: "pyobject \<Rightarrow> interp \<Rightarrow> interp" where
  "Py_DECREF ob st = st\<lparr>ob_refcnt := (ob_refcnt st)(ob := ob_refcnt st ob - 1)\<rparr>"

definition Py_XDECREF :: "pyobject option \<Rightarrow> interp \<Rightarrow> interp" where
  "Py_XDECREF p st = (case p of None \<Rightarrow> st | Some ob \<Rightarrow> Py_DECREF ob st)"

definition PyErr_Occurred :: "interp \<Rightarrow> bool" where
  "PyErr_Occurred st = (curexc st \<noteq> None)"

text \<open>\<^verbatim>\<open>PyErr_SetObject\<close> stores the type and the value as they are given. The
  exception object is built from them when the exception is caught: the value itself
  when it is an instance of the type, else the type called with the value, a tuple
  value being unpacked into the arguments of that call (see
  \<open>PyGen_FetchStopIterationValue\<close> below for StopIteration).\<close>

definition PyErr_SetObject :: "pyobject \<Rightarrow> pyobject \<Rightarrow> interp \<Rightarrow> interp" where
  "PyErr_SetObject t v st = st\<lparr>curexc := Some (PyErr t (Some v) None)\<rparr>"

definition PyErr_SetString :: "pyobject \<Rightarrow> string \<Rightarrow> interp \<Rightarrow> interp" where
  "PyErr_SetString t msg st = PyErr_SetObject t (PyUnicode msg) st"

text \<open>\<^verbatim>\<open>PyErr_Fetch\<close> hands the indicator to the caller and clears it.\<close>

definition PyErr_Fetch :: "interp \<Rightarrow> pyerr option \<times> interp" where
  "PyErr_Fetch st = (curexc st, st\<lparr>curexc := None\<rparr>)"

text \<open>\<^verbatim>\<open>PyErr_PrintEx\<close> prints the pending exception to stderr and clears the indicator;
  for SystemExit it leaves the process instead. (Classes derived from SystemExit, which
  it treats alike, are not told apart from other classes here.)\<close>

definition PyErr_PrintEx :: "bool \<Rightarrow> interp \<Rightarrow> interp exec" where
  "PyErr_PrintEx set_sys_last_vars st =
     (case curexc st of
        None \<Rightarrow> Fin st
      | Some e \<Rightarrow>
          if exc_type e = PyExc ''SystemExit'' then Crash
          else Fin (st\<lparr>curexc := None, stderr_log := stderr_log st @ [e]\<rparr>))"

definition PyExceptionInstance_Class :: "runtime \<Rightarrow> pyobject \<Rightarrow> pyobject" where
  "PyExceptionInstance_Class rt x = py_type rt x"

text \<open>
  What the interpreter makes of the result of a call (its \<^verbatim>\<open>_Py_CheckFunctionResult\<close>),
  be it a call this file makes or the call of one of its methods: NULL without an
  exception and a result with an exception set are both turned into NULL with
  SystemError. So a call made while an exception is pending fails even when the callee
  returns.
\<close>

definition Py_CheckFunctionResult ::
  "pyobject option \<Rightarrow> interp \<Rightarrow> pyobject option \<times> interp" where
  "Py_CheckFunctionResult res st =
     (case res of
        None \<Rightarrow>
          if PyErr_Occurred st then (None, st)
          else (None, PyErr_SetString (PyExc ''SystemError'')
                        ''returned NULL without setting an exception'' st)
      | Some r \<Rightarrow>
          if PyErr_Occurred st
          then (None, PyErr_SetString (PyExc ''SystemError'')
                        ''returned a result with an exception set'' (Py_DECREF r st))
          else (Some r, st))"

text \<open>A failing call leaves its exception in the indicator and returns NULL; a
  successful one returns a new reference.\<close>

definition PyObject_GetAttrString ::
  "runtime \<Rightarrow> pyobject \<Rightarrow> string \<Rightarrow> interp \<Rightarrow> pyobject option \<times> interp" where
  "PyObject_GetAttrString rt ob name st =
     (case getattr_string rt ob name of
        Inl e \<Rightarrow> (None, st\<lparr>curexc := Some e\<rparr>)
      | Inr v \<Rightarrow> (Some v, Py_INCREF v st))"

definition PyObject_Call ::
  "runtime \<Rightarrow> pyobject \<Rightarrow> pyobject list \<Rightarrow> (string \<times> pyobject) list option \<Rightarrow> interp
   \<Rightarrow> pyobject option \<times> interp" where
  "PyObject_Call rt f args kwargs st =
     (let c = Call f args kwargs;
          st1 = st\<lparr>calls := calls st @ [c]\<rparr>
      in case object_call rt (calls st) c of
           Inl e \<Rightarrow> (None, st1\<lparr>curexc := Some e\<rparr>)
         | Inr v \<Rightarrow> Py_CheckFunctionResult (Some v) (Py_INCREF v st1))"

subsection \<open>done, result, exception\<close>

definition non_null :: "'a option \<Rightarrow> bool" where
  \<comment> \<open>a pointer used as a condition\<close>
  "non_null p = (p \<noteq> None)"

definition is_done :: "PyGIAsync \<Rightarrow> bool" where
  \<comment> \<open>the test \<^verbatim>\<open>self->result || self->exception\<close>\<close>
  "is_done self = (non_null (result self) \<or> non_null (exception self))"

definition async_done :: "PyGIAsync \<Rightarrow> interp \<Rightarrow> pyobject option \<times> interp" where
  "async_done self st = (Some (PyBool (is_done self)), st)"

definition async_result ::
  "runtime \<Rightarrow> PyGIAsync \<Rightarrow> interp \<Rightarrow> pyobject option \<times> interp" where
  "async_result rt self st =
     (case (result self, exception self) of
        (None, None) \<Rightarrow>
          (None, PyErr_SetString (asyncio_InvalidStateError st)
                   ''Async task is still running!'' st)
      | (Some r, _) \<Rightarrow> (Some r, Py_INCREF r st)
      | (None, Some e) \<Rightarrow>
          (None, PyErr_SetObject (PyExceptionInstance_Class rt e) e st))"

definition async_exception ::
  "runtime \<Rightarrow> PyGIAsync \<Rightarrow> interp \<Rightarrow> pyobject option \<times> interp" where
  "async_exception rt self st =
     (case (result self, exception self) of
        (None, None) \<Rightarrow>
          (None, PyErr_SetString (asyncio_InvalidStateError st)
                   ''Async task is still running!'' st)
      | (_, Some e) \<Rightarrow> (Some e, Py_INCREF e st)
      | (Some r, None) \<Rightarrow> (Some Py_None, Py_INCREF Py_None st))"

subsection \<open>call_soon\<close>

text \<open>
  The keyword dictionary of \<open>call_soon\<close> is an association list. \<^verbatim>\<open>Py_CLEAR\<close> drops the
  reference and sets the variable to NULL. Storing a NULL value in a dictionary and
  \<^verbatim>\<open>Py_DECREF\<close> of a NULL pointer dereference NULL.
\<close>

definition PyDict_New :: "(string \<times> pyobject) list" where
  "PyDict_New = []"

definition PyDict_SetItemString ::
  "(string \<times> pyobject) list \<Rightarrow> string \<Rightarrow> pyobject \<Rightarrow> (string \<times> pyobject) list" where
  "PyDict_SetItemString d k v = (k, v) # filter (\<lambda>p. fst p \<noteq> k) d"

definition Py_CLEAR :: "'a option \<Rightarrow> 'a option" where
  "Py_CLEAR p = None"

definition call_soon ::
  "runtime \<Rightarrow> PyGIAsync \<Rightarrow> PyGIAsyncCallback \<Rightarrow> interp \<Rightarrow> (pyobject option \<times> interp) exec" where
  "call_soon rt self cb st =
     (case loop self of
        None \<Rightarrow> Crash
      | Some l \<Rightarrow>
          (case PyObject_GetAttrString rt l ''call_soon'' st of
             (None, st1) \<Rightarrow> Fin (None, st1)
           | (Some cs, st1) \<Rightarrow>
               (let args = [cb_func cb, ob_self self] in
                if has_context rt then
                  (case cb_context cb of
                     None \<Rightarrow> Crash
                   | Some c \<Rightarrow>
                       (let kwargs = Some (PyDict_SetItemString PyDict_New ''context'' c);
                            kwargs = Py_CLEAR kwargs;
                            (ret, st2) = PyObject_Call rt cs args kwargs st1
                        in Fin (ret, Py_DECREF cs st2)))
                else
                  (let (ret, st2) = PyObject_Call rt cs args None st1
                   in Fin (ret, Py_DECREF cs st2)))))"

subsection \<open>add_done_callback\<close>

text \<open>
  \<^verbatim>\<open>PyArg_ParseTupleAndKeywords\<close> with the format \<^verbatim>\<open>"O|$O:add_done_callback"\<close> and the
  keyword list \<^verbatim>\<open>{"", "context", NULL}\<close>: one positional-only object and an optional
  keyword-only \<^verbatim>\<open>context\<close>. A failed parse sets TypeError (its text is not modelled).
  Without context support the file passes a NULL keyword list, which the parser refuses
  with \<^verbatim>\<open>PyErr_BadInternalCall\<close>.
\<close>

definition parse_add_done_callback ::
  "pyobject list \<Rightarrow> (string \<times> pyobject) list \<Rightarrow> (pyobject \<times> pyobject option) option" where
  "parse_add_done_callback args kwargs =
     (case args of
        [f] \<Rightarrow>
          if list_all (\<lambda>k. k = ''context'') (map fst kwargs)
          then Some (f, map_of kwargs ''context'') else None
      | _ \<Rightarrow> None)"

definition PyErr_BadInternalCall :: "interp \<Rightarrow> interp" where
  "PyErr_BadInternalCall st = st\<lparr>curexc := Some (PyErr (PyExc ''SystemError'') None None)\<rparr>"

definition PyContext_CopyCurrent :: "runtime \<Rightarrow> interp \<Rightarrow> pyobject \<times> interp" where
  "PyContext_CopyCurrent rt st =
     (let c = context_copy rt (current_context st) in (c, Py_INCREF c st))"

text \<open>The two lines \<^verbatim>\<open>Py_DECREF(cb->func); Py_DECREF(cb->context);\<close> (the second under
  \<^verbatim>\<open>#if\<close>) that release one registry entry.\<close>

definition callback_decref :: "runtime \<Rightarrow> PyGIAsyncCallback \<Rightarrow> interp \<Rightarrow> interp exec" where
  "callback_decref rt cb st =
     (let st1 = Py_DECREF (cb_func cb) st in
      if has_context rt then
        (case cb_context cb of
           None \<Rightarrow> Crash
         | Some c \<Rightarrow> Fin (Py_DECREF c st1))
      else Fin st1)"

definition async_add_done_callback ::
  "runtime \<Rightarrow> PyGIAsync \<Rightarrow> pyobject list \<Rightarrow> (string \<times> pyobject) list \<Rightarrow> interp
   \<Rightarrow> (pyobject option \<times> PyGIAsync \<times> interp) exec" where
  "async_add_done_callback rt self args kwargs st =
     (case (if has_context rt then
              (case parse_add_done_callback args kwargs of
                 None \<Rightarrow> Inl (st\<lparr>curexc := Some (PyErr (PyExc ''TypeError'') None None)\<rparr>)
               | Some (f, ctx) \<Rightarrow>
                   (let st1 = Py_INCREF f st in
                    case ctx of
                      None \<Rightarrow>
                        (let (c, st2) = PyContext_CopyCurrent rt st1
                         in Inr (\<lparr>cb_func = f, cb_context = Some c\<rparr>, st2))
                    | Some c \<Rightarrow>
                        Inr (\<lparr>cb_func = f, cb_context = Some c\<rparr>, Py_INCREF c st1)))
            else Inl (PyErr_BadInternalCall st)) of
        Inl st' \<Rightarrow> Fin (None, self, st')
      | Inr (callback, st1) \<Rightarrow>
          if is_done self then
            (case call_soon rt self callback st1 of
               Crash \<Rightarrow> Crash
             | Fin (res, st2) \<Rightarrow>
                 (case callback_decref rt callback st2 of
                    Crash \<Rightarrow> Crash
                  | Fin st3 \<Rightarrow>
                      (case res of
                         Some r \<Rightarrow>
                           Fin (Some Py_None, self, Py_INCREF Py_None (Py_DECREF r st3))
                       | None \<Rightarrow> Fin (None, self, st3))))
          else
            Fin (Some Py_None,
                 self\<lparr>callbacks :=
                   Some ((case callbacks self of None \<Rightarrow> [] | Some a \<Rightarrow> a) @ [callback])\<rparr>,
                 Py_INCREF Py_None st1))"

subsection \<open>remove_done_callback\<close>

text \<open>
  \<^verbatim>\<open>PyObject_RichCompareBool (v, w, Py_EQ)\<close> is 1 for the same object without asking it,
  otherwise 1 or 0 as \<^verbatim>\<open>v == w\<close> is true or false, and -1 with the exception set when the
  comparison raises. The comparison depends on the two objects and on the exception
  that is pending when it is made.
\<close>

definition PyObject_RichCompareBool ::
  "runtime \<Rightarrow> pyobject \<Rightarrow> pyobject \<Rightarrow> interp \<Rightarrow> int \<times> interp" where
  "PyObject_RichCompareBool rt v w st =
     (if v = w then (1, st)
      else case rich_compare_eq rt (curexc st) v w of
             Inl e \<Rightarrow> (- 1, st\<lparr>curexc := Some e\<rparr>)
           | Inr b \<Rightarrow> (if b then 1 else 0, st))"

definition g_array_remove_index :: "'a list \<Rightarrow> nat \<Rightarrow> 'a list" where
  "g_array_remove_index a i = take i a @ drop (Suc i) a"

text \<open>The \<^verbatim>\<open>while\<close> loop; \<open>i\<close> is a \<^verbatim>\<open>guint\<close> below the array's length and \<open>removed\<close> a
  \<^verbatim>\<open>gssize\<close> of at most that length, so neither wraps.\<close>

function remove_loop ::
  "runtime \<Rightarrow> pyobject \<Rightarrow> PyGIAsyncCallback list \<Rightarrow> nat \<Rightarrow> int \<Rightarrow> interp
   \<Rightarrow> (PyGIAsyncCallback list \<times> int \<times> interp) exec" where
  "remove_loop rt fn cbs i removed st =
     (if i < length cbs then
        (if fst (PyObject_RichCompareBool rt (cb_func (cbs ! i)) fn st) = 1 then
           (case callback_decref rt (cbs ! i)
                   (snd (PyObject_RichCompareBool rt (cb_func (cbs ! i)) fn st)) of
              Crash \<Rightarrow> Crash
            | Fin st2 \<Rightarrow>
                remove_loop rt fn (g_array_remove_index cbs i) i (removed + 1) st2)
         else remove_loop rt fn cbs (i + 1) removed
                (snd (PyObject_RichCompareBool rt (cb_func (cbs ! i)) fn st)))
      else Fin (cbs, removed, st))"
  by pat_completeness auto
termination
  by (relation "measure (\<lambda>(rt, fn, cbs, i, removed, st). length cbs - i)")
     (auto simp: g_array_remove_index_def)

declare remove_loop.simps [simp del]

definition async_remove_done_callback ::
  "runtime \<Rightarrow> PyGIAsync \<Rightarrow> pyobject \<Rightarrow> interp \<Rightarrow> (pyobject option \<times> PyGIAsync \<times> interp) exec" where
  "async_remove_done_callback rt self fn st =
     (case callbacks self of
        None \<Rightarrow> Fin (Some (PyLong 0), self, st)
      | Some cbs \<Rightarrow>
          (case remove_loop rt fn cbs 0 0 st of
             Crash \<Rightarrow> Crash
           | Fin (cbs', removed, st') \<Rightarrow>
               Fin (Some (PyLong removed), self\<lparr>callbacks := Some cbs'\<rparr>, st')))"

subsection \<open>The constructor\<close>

text \<open>
  \<^verbatim>\<open>PyArg_ParseTupleAndKeywords\<close> with the format \<^verbatim>\<open>"O!|$O!:gi._gi.Async.__init__"\<close> and
  the keyword list \<^verbatim>\<open>{"finish_func", "cancellable", NULL}\<close>. More than two arguments in
  all are refused at once. Then the parser converts from left to right and stores each
  converted argument into the struct at once (a borrowed reference): \<open>finish_func\<close>,
  from the first position or else from the keyword, is required and must be a callable
  info; only then a second positional argument is refused; \<open>cancellable\<close>, from the
  keyword only, must be a GObject; a keyword that is left over (an unknown one, or
  \<open>finish_func\<close> given by position as well) is refused last.
\<close>

definition parse_init ::
  "runtime \<Rightarrow> PyGIAsync \<Rightarrow> pyobject list \<Rightarrow> (string \<times> pyobject) list \<Rightarrow> bool \<times> PyGIAsync" where
  "parse_init rt self args kwargs =
     (if 2 < length args + length kwargs then (False, self)
      else
        (case (case args of a # _ \<Rightarrow> Some a | [] \<Rightarrow> map_of kwargs ''finish_func'') of
           None \<Rightarrow> (False, self)
         | Some f \<Rightarrow>
             if \<not> type_check rt f (PyGICallableInfo_Type rt) then (False, self)
             else
               (let self1 = self\<lparr>finish_func := Some f\<rparr>;
                    left_over = list_ex
                      (\<lambda>k. k \<noteq> ''cancellable'' \<and> (k \<noteq> ''finish_func'' \<or> args \<noteq> []))
                      (map fst kwargs)
                in if 1 < length args then (False, self1)
                   else
                     (case map_of kwargs ''cancellable'' of
                        None \<Rightarrow> (\<not> left_over, self1)
                      | Some c \<Rightarrow>
                          if \<not> type_check rt c (PyGObject_Type rt) then (False, self1)
                          else (\<not> left_over, self1\<lparr>cancellable := Some c\<rparr>)))))"

definition PyImport_ImportModule ::
  "runtime \<Rightarrow> string \<Rightarrow> interp \<Rightarrow> pyobject option \<times> interp" where
  "PyImport_ImportModule rt name st =
     (case import_module rt name of
        Inl e \<Rightarrow> (None, st\<lparr>curexc := Some e\<rparr>)
      | Inr m \<Rightarrow> (Some m, Py_INCREF m st))"

definition PyObject_IsInstance ::
  "runtime \<Rightarrow> pyobject \<Rightarrow> pyobject \<Rightarrow> interp \<Rightarrow> int \<times> interp" where
  "PyObject_IsInstance rt ob cls st =
     (case is_instance rt ob cls of
        Inl e \<Rightarrow> (- 1, st\<lparr>curexc := Some e\<rparr>)
      | Inr b \<Rightarrow> (if b then 1 else 0, st))"

definition PyObject_CallObject ::
  "runtime \<Rightarrow> pyobject \<Rightarrow> interp \<Rightarrow> pyobject option \<times> interp" where
  \<comment> \<open>\<^verbatim>\<open>PyObject_CallObject (callable, NULL)\<close>: a call without arguments\<close>
  "PyObject_CallObject rt f st = PyObject_Call rt f [] None st"

text \<open>The block that fills the static \<open>cancellable_info\<close> on first use. It returns the
  static's value afterwards; NULL is the block's \<^verbatim>\<open>return -1\<close>.\<close>

definition init_cancellable_info :: "runtime \<Rightarrow> interp \<Rightarrow> pyobject option \<times> interp" where
  "init_cancellable_info rt st =
     (case cancellable_info st of
        Some ci \<Rightarrow> (Some ci, st)
      | None \<Rightarrow>
          (case PyImport_ImportModule rt ''gi.repository.Gio'' st of
             (None, st1) \<Rightarrow> (None, st1)
           | (Some gio, st1) \<Rightarrow>
               (case PyObject_GetAttrString rt gio ''Cancellable'' st1 of
                  (ci, st2) \<Rightarrow> (ci, Py_DECREF gio (st2\<lparr>cancellable_info := ci\<rparr>)))))"

text \<open>\<open>async_init\<close> returns 0 or -1. The result of constructing the default
  \<open>Gio.Cancellable\<close> is stored unchecked.\<close>

definition async_init ::
  "runtime \<Rightarrow> PyGIAsync \<Rightarrow> pyobject list \<Rightarrow> (string \<times> pyobject) list \<Rightarrow> interp
   \<Rightarrow> int \<times> PyGIAsync \<times> interp" where
  "async_init rt self args kwargs st =
     (case parse_init rt self args kwargs of
        (False, self1) \<Rightarrow>
          (- 1, self1, st\<lparr>curexc := Some (PyErr (PyExc ''TypeError'') None None)\<rparr>)
      | (True, self1) \<Rightarrow>
          (case init_cancellable_info rt st of
             (None, st1) \<Rightarrow> (- 1, self1, st1)
           | (Some ci, st1) \<Rightarrow>
               (case (case cancellable self1 of
                        Some c \<Rightarrow>
                          (case PyObject_IsInstance rt c ci st1 of
                             (res, st2) \<Rightarrow>
                               if res = - 1 then Inl st2
                               else if res = 0 then
                                 Inl (PyErr_SetString (PyExc ''TypeError'')
                                   ''cancellable argument needs to be of type Gio.Cancellable''
                                   st2)
                               else Inr (self1, st2))
                      | None \<Rightarrow>
                          (case PyObject_CallObject rt ci st1 of
                             (c, st2) \<Rightarrow> Inr (self1\<lparr>cancellable := c\<rparr>, st2))) of
                  Inl st2 \<Rightarrow> (- 1, self1, st2)
                | Inr (self2, st2) \<Rightarrow>
                    (case PyObject_CallObject rt (asyncio_get_event_loop st2) st2 of
                       (l, st3) \<Rightarrow>
                         (if l = None then - 1 else 0, self2\<lparr>loop := l\<rparr>, st3)))))"

subsection \<open>repr, await, next\<close>

definition async_repr :: "runtime \<Rightarrow> PyGIAsync \<Rightarrow> pyobject option exec" where
  "async_repr rt self =
     (case finish_func self of
        None \<Rightarrow> Crash
      | Some f \<Rightarrow>
          Fin (Some (PyUnicode
            (''gi.Async(finish_func='' @ base_info_fullname rt f @ '', done=''
             @ (if is_done self then ''True'' else ''False'')
             @ '')''))))"

definition async_await :: "PyGIAsync \<Rightarrow> interp \<Rightarrow> pyobject option \<times> PyGIAsync \<times> interp" where
  "async_await self st =
     (let self1 = (if result self = None \<and> exception self = None
                   then self\<lparr>asyncio_future_blocking := True\<rparr> else self)
      in (Some (ob_self self1), self1, Py_INCREF (ob_self self1) st))"

definition async_iternext ::
  "runtime \<Rightarrow> PyGIAsync \<Rightarrow> interp \<Rightarrow> pyobject option \<times> interp" where
  "async_iternext rt self st =
     (case (result self, exception self) of
        (None, None) \<Rightarrow> (Some (ob_self self), Py_INCREF (ob_self self) st)
      | (_, Some e) \<Rightarrow> (None, PyErr_SetObject (PyExceptionInstance_Class rt e) e st)
      | (Some r, None) \<Rightarrow> (None, PyErr_SetObject (PyExc ''StopIteration'') r st))"

text \<open>
  What the interpreter hands to the awaiting coroutine when \<open>__next__\<close> has returned
  NULL with StopIteration set (its \<^verbatim>\<open>_PyGen_FetchStopIterationValue\<close>): the \<open>value\<close>
  attribute of the exception object. A raw value that is a StopIteration instance is
  that object; a raw value that is a tuple is unpacked into the arguments of
  \<open>StopIteration\<close>, whose \<open>value\<close> is the first argument, or \<open>None\<close> without arguments;
  any other raw value is taken as the value. The indicator is cleared. Any other
  pending exception is left to propagate (NULL here); with nothing pending the value is
  \<open>None\<close>. (Classes derived from StopIteration are not told apart from other
  classes.)
\<close>

definition PyGen_FetchStopIterationValue ::
  "runtime \<Rightarrow> interp \<Rightarrow> pyobject option \<times> interp" where
  "PyGen_FetchStopIterationValue rt st =
     (case curexc st of
        None \<Rightarrow> (Some Py_None, st)
      | Some (PyErr t ev tb) \<Rightarrow>
          if t \<noteq> PyExc ''StopIteration'' then (None, st)
          else
            (case ev of
               None \<Rightarrow> (Some Py_None, st\<lparr>curexc := None\<rparr>)
             | Some v \<Rightarrow>
                 if py_type rt v = PyExc ''StopIteration'' then
                   (case getattr_string rt v ''value'' of
                      Inl e \<Rightarrow> (None, st\<lparr>curexc := Some e\<rparr>)
                    | Inr x \<Rightarrow> (Some x, st\<lparr>curexc := None\<rparr>))
                 else
                   (case v of
                      PyTuple [] \<Rightarrow> (Some Py_None, st\<lparr>curexc := None\<rparr>)
                    | PyTuple (x # xs) \<Rightarrow> (Some x, st\<lparr>curexc := None\<rparr>)
                    | _ \<Rightarrow> (Some v, st\<lparr>curexc := None\<rparr>))))"

subsection \<open>The completion handler\<close>

text \<open>
  \<^verbatim>\<open>PyObject_CallFunction (callable, format, ...)\<close> builds the arguments of the call from
  a \<^verbatim>\<open>Py_BuildValue\<close> format string and the variadic arguments, which in this file are
  objects only. An empty format is a call without arguments. The format is read from
  left to right (\<open>do_mkvalue\<close> handles one character): blanks, commas and colons are
  skipped; the unit \<^verbatim>\<open>O\<close> takes the next object; a unit for a C integer reads an
  integer where none was passed, which yields some indeterminate integer
  (\<open>va_indeterminate\<close>) and lets the scan go on; any character that is no unit makes the
  call return NULL with SystemError. The remaining units (for C strings and pointers,
  characters and floating-point numbers) occur in no format of this file before such a
  character; reading their argument from stray variadic values is taken to end the
  process. (After a failure the interpreter still scans the rest of the format, to
  release what the call owns; on stray values that can only end the process earlier,
  and it is left out.) When the format yields one argument and that is a tuple, the
  tuple's items are the arguments of the call.
\<close>

definition integer_units :: string where
  "integer_units = ''bBhiHInlkLK''"

definition other_units :: string where
  "other_units = ''szUyuDNSfdcC''"

datatype va_unit = Skipped | Converted pyobject "pyobject list" | Stray | NoUnit

definition do_mkvalue :: "runtime \<Rightarrow> char \<Rightarrow> pyobject list \<Rightarrow> va_unit" where
  "do_mkvalue rt c va =
     (if c = CHR '' '' \<or> c = CHR '','' \<or> c = CHR '':'' \<or> c = CHR 0x09 then Skipped
      else if c = CHR ''O'' then
        (case va of [] \<Rightarrow> Stray | v # va' \<Rightarrow> Converted v va')
      else if c \<in> set integer_units then Converted (PyLong (va_indeterminate rt)) (tl va)
      else if c \<in> set other_units then Stray
      else NoUnit)"

fun Py_VaBuildStack ::
  "runtime \<Rightarrow> string \<Rightarrow> pyobject list \<Rightarrow> pyobject list option exec" where
  "Py_VaBuildStack rt [] va = Fin (Some [])"
| "Py_VaBuildStack rt (c # fmt) va =
     (case do_mkvalue rt c va of
        Skipped \<Rightarrow> Py_VaBuildStack rt fmt va
      | Converted v va' \<Rightarrow>
          (case Py_VaBuildStack rt fmt va' of
             Crash \<Rightarrow> Crash
           | Fin None \<Rightarrow> Fin None
           | Fin (Some vs) \<Rightarrow> Fin (Some (v # vs)))
      | Stray \<Rightarrow> Crash
      | NoUnit \<Rightarrow> Fin None)"

definition PyObject_CallFunction ::
  "runtime \<Rightarrow> pyobject \<Rightarrow> string \<Rightarrow> pyobject list \<Rightarrow> interp
   \<Rightarrow> (pyobject option \<times> interp) exec" where
  "PyObject_CallFunction rt f fmt va st =
     (case Py_VaBuildStack rt fmt va of
        Crash \<Rightarrow> Crash
      | Fin None \<Rightarrow>
          Fin (None, PyErr_SetString (PyExc ''SystemError'')
                       ''bad format char passed to Py_BuildValue'' st)
      | Fin (Some args) \<Rightarrow>
          Fin (PyObject_Call rt f (case args of [PyTuple items] \<Rightarrow> items | _ \<Rightarrow> args)
                 None st))"

definition PyGILState_Ensure :: "interp \<Rightarrow> interp" where
  "PyGILState_Ensure st = st\<lparr>gilstate := gilstate st + 1\<rparr>"

definition PyGILState_Release :: "interp \<Rightarrow> interp" where
  "PyGILState_Release st = st\<lparr>gilstate := gilstate st - 1\<rparr>"

definition Py_IsInitialized :: "interp \<Rightarrow> bool" where
  "Py_IsInitialized st = initialized st"

definition pygobject_new_full :: "runtime \<Rightarrow> nat \<Rightarrow> interp \<Rightarrow> pyobject \<times> interp" where
  "pygobject_new_full rt g st = (gobject_wrapper rt g, Py_INCREF (gobject_wrapper rt g) st)"

definition wrap_g_callable_info_invoke ::
  "runtime \<Rightarrow> pyobject \<Rightarrow> pyobject list \<Rightarrow> interp \<Rightarrow> pyobject option \<times> interp" where
  "wrap_g_callable_info_invoke rt info args st =
     (case callable_info_invoke rt info args of
        Inl e \<Rightarrow> (None, st\<lparr>curexc := Some e\<rparr>)
      | Inr v \<Rightarrow> (Some v, Py_INCREF v st))"

text \<open>The \<^verbatim>\<open>if (PyErr_Occurred ()) ... else ...\<close> block that stores the outcome of the finish
  function; \<open>Crash\<close> in its last case is the failed \<^verbatim>\<open>g_assert (exc_val)\<close>.\<close>

definition finish_store ::
  "runtime \<Rightarrow> PyGIAsync \<Rightarrow> pyobject option \<Rightarrow> interp \<Rightarrow> (PyGIAsync \<times> interp) exec" where
  "finish_store rt self ret st =
     (case curexc st of
        None \<Rightarrow> Fin (self\<lparr>result := ret\<rparr>, st)
      | Some (PyErr exc val traceback) \<Rightarrow>
          (let st1 = snd (PyErr_Fetch st);
               st2 = Py_XDECREF ret st1
           in case (case val of
                      None \<Rightarrow> PyObject_CallFunction rt exc [] [] st2
                    | Some v \<Rightarrow> PyObject_CallFunction rt exc ''O'' [v] st2) of
                Crash \<Rightarrow> Crash
              | Fin (exc_val, st3) \<Rightarrow>
                  (case (case exc_val of
                           None \<Rightarrow>
                             PyObject_CallFunction rt (PyExc ''TypeError'')
                               ''Invalid exception from _finish function call!'' [] st3
                         | Some x \<Rightarrow> Fin (Some x, st3)) of
                     Crash \<Rightarrow> Crash
                   | Fin (None, st4) \<Rightarrow> Crash
                   | Fin (Some x, st4) \<Rightarrow>
                       Fin (self\<lparr>exception := Some x\<rparr>,
                            Py_XDECREF ret (Py_XDECREF traceback (Py_XDECREF val
                              (Py_XDECREF (Some exc) st4)))))))"

text \<open>The \<^verbatim>\<open>for\<close> loop over the registry; the array is not changed while it runs.\<close>

fun finish_notify ::
  "runtime \<Rightarrow> PyGIAsync \<Rightarrow> PyGIAsyncCallback list \<Rightarrow> interp \<Rightarrow> interp exec" where
  "finish_notify rt self [] st = Fin st"
| "finish_notify rt self (cb # cbs) st =
     (case (if \<not> PyErr_Occurred st then
              (case call_soon rt self cb st of
                 Crash \<Rightarrow> Crash
               | Fin (None, st1) \<Rightarrow> PyErr_PrintEx False st1
               | Fin (Some ret, st1) \<Rightarrow> Fin (Py_DECREF ret st1))
            else Fin st) of
        Crash \<Rightarrow> Crash
      | Fin st2 \<Rightarrow>
          (case callback_decref rt cb st2 of
             Crash \<Rightarrow> Crash
           | Fin st3 \<Rightarrow> finish_notify rt self cbs st3))"

definition pygi_async_finish_cb ::
  "runtime \<Rightarrow> nat option \<Rightarrow> nat \<Rightarrow> PyGIAsync \<Rightarrow> interp \<Rightarrow> (PyGIAsync \<times> interp) exec" where
  "pygi_async_finish_cb rt source_object res self st0 =
     (let py_state = PyGILState_Ensure st0 in
      if \<not> Py_IsInitialized py_state then Fin (self, PyGILState_Release py_state)
      else
        (let (res_pyobj, st1) = pygobject_new_full rt res py_state;
             (source_pyobj, st2) =
               (case source_object of
                  Some s \<Rightarrow> (case pygobject_new_full rt s st1 of (p, st') \<Rightarrow> (Some p, st'))
                | None \<Rightarrow> (None, st1));
             args = (case source_pyobj of Some s \<Rightarrow> [s, res_pyobj] | None \<Rightarrow> [res_pyobj])
         in case finish_func self of
              None \<Rightarrow> Crash
            | Some info \<Rightarrow>
                (let (ret, st3) = wrap_g_callable_info_invoke rt info args st2;
                     st4 = Py_XDECREF source_pyobj (Py_XDECREF (Some res_pyobj) st3)
                 in case finish_store rt self ret st4 of
                      Crash \<Rightarrow> Crash
                    | Fin (self1, st5) \<Rightarrow>
                        (case (case callbacks self1 of
                                 None \<Rightarrow> Fin st5
                               | Some cbs \<Rightarrow> finish_notify rt self1 cbs st5) of
                           Crash \<Rightarrow> Crash
                         | Fin st6 \<Rightarrow>
                             Fin (self1\<lparr>callbacks := None\<rparr>,
                                  PyGILState_Release (Py_DECREF (ob_self self1) st6))))))"

subsection \<open>A concrete world\<close>

text \<open>
  One runtime and one interpreter state on which the functions can be run. The future is
  \<open>PyObj 1\<close>. Its loop is \<open>PyObj 10\<close>, whose \<open>call_soon\<close> is \<open>PyObj 11\<close>; scheduling the
  callback \<open>PyObj 21\<close> raises, any other callback gets the handle \<open>PyObj 12\<close>. The
  callbacks are \<open>PyObj 21\<close> to \<open>PyObj 24\<close>: comparing \<open>PyObj 23\<close> with anything raises,
  \<open>PyObj 24\<close> equals \<open>PyObj 22\<close> without being it, and every comparison made while an
  exception is pending fails. \<open>PyObj 3\<close> is a finish function that
  returns 42, \<open>PyObj 5\<close> one that raises \<open>ValueError\<close> with the argument \<open>bad\<close>, and any
  other raises the class \<open>PyObj 70\<close>, which cannot be instantiated. \<open>PyObj 41\<close> is
  \<open>Gio.Cancellable\<close>, \<open>PyObj 42\<close> and \<open>PyObj 43\<close> are instances of it, \<open>PyObj 44\<close> is
  another GObject.
\<close>

definition example_runtime :: runtime where
  "example_runtime =
     \<lparr>PY_VERSION_HEX = 50855936,
      getattr_string = (\<lambda>ob name.
        if ob = PyObj 10 \<and> name = ''call_soon'' then Inr (PyObj 11)
        else if ob = PyObj 40 \<and> name = ''Cancellable'' then Inr (PyObj 41)
        else Inl (PyErr (PyExc ''AttributeError'') None None)),
      object_call = (\<lambda>before c.
        if callee c = PyObj 11 then
          (if call_args c = [PyObj 21, PyObj 1]
           then Inl (PyErr (PyExc ''RuntimeError'') (Some (PyUnicode ''Event loop is closed'')) None)
           else Inr (PyObj 12))
        else if callee c = PyObj 41 \<and> call_args c = [] then Inr (PyObj 42)
        else if callee c = PyObj 50 then Inr (PyObj 10)
        else if callee c = PyExc ''ValueError'' then Inr (PyObj 60)
        else Inl (PyErr (PyExc ''TypeError'') None None)),
      rich_compare_eq = (\<lambda>pending v w.
        if pending \<noteq> None then Inl (PyErr (PyExc ''SystemError'') None None)
        else if v = PyObj 23 then Inl (PyErr (PyExc ''RuntimeError'') None None)
        else Inr (v = PyObj 24 \<and> w = PyObj 22)),
      is_instance = (\<lambda>ob cls. Inr (cls = PyObj 41 \<and> (ob = PyObj 42 \<or> ob = PyObj 43))),
      py_type = (\<lambda>x. if x = PyObj 60 then PyExc ''ValueError'' else PyObj 0),
      type_check = (\<lambda>ob t.
        (t = PyObj 2 \<and> (ob = PyObj 3 \<or> ob = PyObj 5))
        \<or> (t = PyObj 4 \<and> (ob = PyObj 42 \<or> ob = PyObj 43 \<or> ob = PyObj 44))),
      PyGICallableInfo_Type = PyObj 2,
      PyGObject_Type = PyObj 4,
      base_info_fullname = (\<lambda>info. ''Gio.File.load_contents_finish''),
      context_copy = (\<lambda>c. PyObj 31),
      import_module = (\<lambda>name.
        if name = ''gi.repository.Gio'' then Inr (PyObj 40)
        else Inl (PyErr (PyExc ''ImportError'') None None)),
      callable_info_invoke = (\<lambda>info args.
        if info = PyObj 3 then Inr (PyLong 42)
        else if info = PyObj 5
        then Inl (PyErr (PyExc ''ValueError'') (Some (PyUnicode ''bad'')) None)
        else Inl (PyErr (PyObj 70) None None)),
      gobject_wrapper = (\<lambda>g. PyObj (100 + g)),
      va_indeterminate = 0\<rparr>"

definition example_interp :: interp where
  "example_interp =
     \<lparr>initialized = True, gilstate = 0, curexc = None, ob_refcnt = (\<lambda>ob. 1), calls = [],
      stderr_log = [], current_context = PyObj 30, asyncio_InvalidStateError = PyObj 51,
      asyncio_get_event_loop = PyObj 50, cancellable_info = None\<rparr>"

definition pending_future :: PyGIAsync where
  "pending_future =
     \<lparr>ob_self = PyObj 1, finish_func = Some (PyObj 3), loop = Some (PyObj 10),
      cancellable = Some (PyObj 42), asyncio_future_blocking = False, result = None,
      exception = None, callbacks = None\<rparr>"

definition resolved_future :: PyGIAsync where
  "resolved_future = pending_future\<lparr>result := Some (PyLong 42)\<rparr>"

definition rejected_future :: PyGIAsync where
  "rejected_future = pending_future\<lparr>exception := Some (PyObj 60)\<rparr>"

text \<open>The struct as \<^verbatim>\<open>tp_alloc\<close> hands it to \<open>async_init\<close>: every field zero.\<close>

definition allocated_future :: PyGIAsync where
  "allocated_future =
     \<lparr>ob_self = PyObj 1, finish_func = None, loop = None, cancellable = None,
      asyncio_future_blocking = False, result = None, exception = None, callbacks = None\<rparr>"

text \<open>With no exception pending: \<open>compares_equal\<close> holds of the pairs that
  \<^verbatim>\<open>PyObject_RichCompareBool\<close> reports as equal (result 1), \<open>compares_quietly\<close> of the
  pairs whose comparison does not raise (result 1 or 0).\<close>

definition compares_equal :: "runtime \<Rightarrow> pyobject \<Rightarrow> pyobject \<Rightarrow> bool" where
  "compares_equal rt v w = (v = w \<or> rich_compare_eq rt None v w = Inr True)"

definition compares_quietly :: "runtime \<Rightarrow> pyobject \<Rightarrow> pyobject \<Rightarrow> bool" where
  "compares_quietly rt v w =
     (v = w \<or> (case rich_compare_eq rt None v w of Inl e \<Rightarrow> False | Inr b \<Rightarrow> True))"

text \<open>The arguments with which the handler instantiates the raised class: none without
  a raised value, the items of a raised tuple, else the raised value.\<close>

definition instance_args :: "pyobject option \<Rightarrow> pyobject list" where
  "instance_args val =
     (case val of
        None \<Rightarrow> []
      | Some (PyTuple items) \<Rightarrow> items
      | Some v \<Rightarrow> [v])"

text \<open>A future resolved with a tuple, as a finish function with several results
  returns it.\<close>

definition tuple_future :: PyGIAsync where
  "tuple_future =
     pending_future\<lparr>result := Some (PyTuple [PyBool True, PyUnicode ''data'', PyUnicode ''etag''])\<rparr>"

text \<open>A registry of three entries: \<open>PyObj 24\<close> (equal to \<open>PyObj 22\<close>), \<open>PyObj 22\<close> itself
  and \<open>PyObj 21\<close>.\<close>

definition example_registry :: "PyGIAsyncCallback list" where
  "example_registry =
     [\<lparr>cb_func = PyObj 24, cb_context = Some (PyObj 31)\<rparr>,
      \<lparr>cb_func = PyObj 22, cb_context = Some (PyObj 31)\<rparr>,
      \<lparr>cb_func = PyObj 21, cb_context = Some (PyObj 32)\<rparr>]"

section \<open>Properties\<close>

subsection \<open>The accessors\<close>

text \<open>
  Claim C3. While the future is pending, \<open>result()\<close> and \<open>exception()\<close> return NULL with
  \<open>InvalidStateError\<close> set. Once it is resolved with \<open>v\<close>, \<open>result()\<close> returns \<open>v\<close> and
  \<open>exception()\<close> returns \<open>None\<close>, neither touching the error indicator. Once it is
  rejected with \<open>e\<close>, \<open>result()\<close> returns NULL with \<open>e\<close> itself set as the raised value
  (under its own class) and \<open>exception()\<close> returns \<open>e\<close>. The accessors do not change the
  struct and the statement holds in every interpreter state, so it holds for every call,
  however many came before.
\<close>

theorem async_result_exception_states:
  "(result self = None \<and> exception self = None \<longrightarrow>
      fst (async_result rt self st) = None
      \<and> curexc (snd (async_result rt self st))
          = Some (PyErr (asyncio_InvalidStateError st)
                    (Some (PyUnicode ''Async task is still running!'')) None)
      \<and> fst (async_exception rt self st) = None
      \<and> curexc (snd (async_exception rt self st))
          = Some (PyErr (asyncio_InvalidStateError st)
                    (Some (PyUnicode ''Async task is still running!'')) None))
   \<and> (result self = Some v \<and> exception self = None \<longrightarrow>
      fst (async_result rt self st) = Some v
      \<and> curexc (snd (async_result rt self st)) = curexc st
      \<and> fst (async_exception rt self st) = Some Py_None
      \<and> curexc (snd (async_exception rt self st)) = curexc st)
   \<and> (result self = None \<and> exception self = Some e \<longrightarrow>
      fst (async_result rt self st) = None
      \<and> curexc (snd (async_result rt self st)) = Some (PyErr (py_type rt e) (Some e) None)
      \<and> fst (async_exception rt self st) = Some e
      \<and> curexc (snd (async_exception rt self st)) = curexc st)"
  by (simp add: async_result_def async_exception_def PyErr_SetString_def PyErr_SetObject_def
      PyExceptionInstance_Class_def Py_INCREF_def)

theorem async_result_exception_states_witness:
  "fst (async_result example_runtime pending_future example_interp) = None
   \<and> curexc (snd (async_result example_runtime pending_future example_interp))
       = Some (PyErr (PyObj 51) (Some (PyUnicode ''Async task is still running!'')) None)
   \<and> fst (async_exception example_runtime pending_future example_interp) = None
   \<and> fst (async_result example_runtime resolved_future example_interp) = Some (PyLong 42)
   \<and> fst (async_exception example_runtime resolved_future example_interp) = Some Py_None
   \<and> fst (async_result example_runtime rejected_future example_interp) = None
   \<and> curexc (snd (async_result example_runtime rejected_future example_interp))
       = Some (PyErr (PyExc ''ValueError'') (Some (PyObj 60)) None)
   \<and> fst (async_exception example_runtime rejected_future example_interp) = Some (PyObj 60)"
  using async_result_exception_states [of pending_future example_runtime example_interp]
    async_result_exception_states [of resolved_future example_runtime example_interp "PyLong 42"]
    async_result_exception_states [of rejected_future example_runtime example_interp _ "PyObj 60"]
  by (simp add: pending_future_def resolved_future_def rejected_future_def example_interp_def
      example_runtime_def)

subsection \<open>The await protocol\<close>

text \<open>
  \<open>__await__\<close> returns the future itself and sets \<open>_asyncio_future_blocking\<close> when the
  future is not done (and changes nothing otherwise). \<open>__next__\<close> returns the future
  itself while it is not done; once a result is stored it returns NULL with the pair of
  \<open>StopIteration\<close> and that result in the error indicator, and once an exception is
  stored it returns NULL with that exception set.
\<close>

lemma await_protocol:
  "fst (async_await self st) = Some (ob_self self)
   \<and> fst (snd (async_await self st))
       = (if result self = None \<and> exception self = None
          then self\<lparr>asyncio_future_blocking := True\<rparr> else self)
   \<and> (result self = None \<and> exception self = None \<longrightarrow>
        fst (async_iternext rt self st) = Some (ob_self self)
        \<and> curexc (snd (async_iternext rt self st)) = curexc st)
   \<and> (result self = Some v \<and> exception self = None \<longrightarrow>
        fst (async_iternext rt self st) = None
        \<and> curexc (snd (async_iternext rt self st))
            = Some (PyErr (PyExc ''StopIteration'') (Some v) None))
   \<and> (exception self = Some e \<longrightarrow>
        fst (async_iternext rt self st) = None
        \<and> curexc (snd (async_iternext rt self st)) = Some (PyErr (py_type rt e) (Some e) None))"
  by (simp add: async_await_def async_iternext_def PyErr_SetObject_def
      PyExceptionInstance_Class_def Py_INCREF_def Let_def split: option.splits)

lemma await_protocol_witness:
  "fst (async_await pending_future example_interp) = Some (PyObj 1)
   \<and> asyncio_future_blocking (fst (snd (async_await pending_future example_interp)))
   \<and> \<not> asyncio_future_blocking (fst (snd (async_await resolved_future example_interp)))
   \<and> fst (async_iternext example_runtime pending_future example_interp) = Some (PyObj 1)
   \<and> curexc (snd (async_iternext example_runtime pending_future example_interp)) = None
   \<and> fst (async_iternext example_runtime resolved_future example_interp) = None
   \<and> curexc (snd (async_iternext example_runtime resolved_future example_interp))
       = Some (PyErr (PyExc ''StopIteration'') (Some (PyLong 42)) None)
   \<and> fst (async_iternext example_runtime rejected_future example_interp) = None
   \<and> curexc (snd (async_iternext example_runtime rejected_future example_interp))
       = Some (PyErr (PyExc ''ValueError'') (Some (PyObj 60)) None)"
  using await_protocol [of pending_future example_interp example_runtime]
    await_protocol [of resolved_future example_interp example_runtime "PyLong 42"]
    await_protocol [of rejected_future example_interp example_runtime _ "PyObj 60"]
  by (simp add: pending_future_def resolved_future_def rejected_future_def example_interp_def
      example_runtime_def)

text \<open>What the awaiting coroutine gets from that pair is the result itself, unless the
  result is a tuple or a StopIteration instance.\<close>

lemma stop_iteration_carries_plain_result:
  assumes "curexc st = Some (PyErr (PyExc ''StopIteration'') (Some v) None)"
    and "py_type rt v \<noteq> PyExc ''StopIteration''" and "\<forall>items. v \<noteq> PyTuple items"
  shows "fst (PyGen_FetchStopIterationValue rt st) = Some v"
  using assms by (cases v) (simp_all add: PyGen_FetchStopIterationValue_def)

text \<open>
  Claim C7, on a future resolved with the tuple \<open>(True, 'data', 'etag')\<close>. \<open>result()\<close>
  returns the tuple. \<open>__next__\<close> returns NULL with \<open>StopIteration\<close> and the tuple in the
  error indicator, as for any result; but a tuple given as the value of an exception is
  unpacked into the arguments of the exception, so the stop-signal carries the first
  item \<open>True\<close> and that is what \<open>await\<close> evaluates to, where the claim has it carry the
  resolved value.
\<close>

theorem iternext_tuple_result_truncated:
  "fst (async_result example_runtime tuple_future example_interp)
     = Some (PyTuple [PyBool True, PyUnicode ''data'', PyUnicode ''etag''])
   \<and> fst (async_iternext example_runtime tuple_future example_interp) = None
   \<and> curexc (snd (async_iternext example_runtime tuple_future example_interp))
       = Some (PyErr (PyExc ''StopIteration'')
           (Some (PyTuple [PyBool True, PyUnicode ''data'', PyUnicode ''etag''])) None)
   \<and> fst (PyGen_FetchStopIterationValue example_runtime
          (snd (async_iternext example_runtime tuple_future example_interp)))
       = Some (PyBool True)"
  by (simp add: async_result_def async_iternext_def PyGen_FetchStopIterationValue_def
      PyErr_SetObject_def Py_INCREF_def tuple_future_def pending_future_def
      example_runtime_def example_interp_def)

subsection \<open>repr\<close>

text \<open>
  The string claimed for a pending future whose finish function is
  \<open>Gio.File.load_contents_finish\<close> is not the one \<open>async_repr\<close> returns: the format
  string of the C function starts with \<open>gi.\<close>.
\<close>

theorem async_repr_not_as_claimed:
  "async_repr example_runtime pending_future
     \<noteq> Fin (Some (PyUnicode ''Async(finish_func=Gio.File.load_contents_finish, done=False)''))"
  by (simp add: async_repr_def pending_future_def example_runtime_def is_done_def non_null_def)

text \<open>
  Claim C9, amended. The representation is
  \<open>gi.Async(finish_func=<name>, done=<True|False>)\<close>, where the name is the full name of
  the finish function's info and \<open>done\<close> is \<open>True\<close> exactly when a result or an
  exception is stored.
\<close>

theorem async_repr_format:
  "finish_func self = Some info \<Longrightarrow>
   async_repr rt self
     = Fin (Some (PyUnicode
         (''gi.Async(finish_func='' @ base_info_fullname rt info @ '', done=''
          @ (if result self = None \<and> exception self = None then ''False'' else ''True'')
          @ '')'')))"
  by (simp add: async_repr_def is_done_def non_null_def)

theorem async_repr_format_witness:
  "async_repr example_runtime pending_future
     = Fin (Some (PyUnicode ''gi.Async(finish_func=Gio.File.load_contents_finish, done=False)''))
   \<and> async_repr example_runtime resolved_future
     = Fin (Some (PyUnicode ''gi.Async(finish_func=Gio.File.load_contents_finish, done=True)''))
   \<and> async_repr example_runtime rejected_future
     = Fin (Some (PyUnicode ''gi.Async(finish_func=Gio.File.load_contents_finish, done=True)''))"
  using async_repr_format [of pending_future "PyObj 3" example_runtime]
    async_repr_format [of resolved_future "PyObj 3" example_runtime]
    async_repr_format [of rejected_future "PyObj 3" example_runtime]
  by (simp add: pending_future_def resolved_future_def rejected_future_def example_runtime_def)

subsection \<open>The constructor\<close>

lemma init_cancellable_info_calls:
  "init_cancellable_info rt st = (p, st1) \<Longrightarrow>
   calls st1 = calls st \<and> asyncio_get_event_loop st1 = asyncio_get_event_loop st"
  by (auto simp: init_cancellable_info_def PyImport_ImportModule_def PyObject_GetAttrString_def
      Py_INCREF_def Py_DECREF_def split: option.splits sum.splits prod.splits)

lemma init_cancellable_info_curexc:
  "init_cancellable_info rt st = (Some ci, st1) \<Longrightarrow> curexc st1 = curexc st"
  by (auto simp: init_cancellable_info_def PyImport_ImportModule_def PyObject_GetAttrString_def
      Py_INCREF_def Py_DECREF_def split: option.splits sum.splits prod.splits)

text \<open>
  Claim C8. Take a call \<open>Async(f, ...)\<close> with a finish function of the right type, in
  a state where \<open>Gio.Cancellable\<close> can be resolved to \<open>ci\<close> (it is cached, or the import
  succeeds). A supplied \<open>cancellable\<close> that is no GObject at all is refused by the
  argument parser with TypeError; one that is a GObject but no instance of \<open>ci\<close> makes
  \<open>async_init\<close> return -1 with the TypeError \<open>cancellable argument needs to be of type
  Gio.Cancellable\<close>; one that is an instance is stored. When none is supplied and the
  struct holds none, \<open>ci\<close> is called without arguments and what that call returns is
  stored (NULL when \<open>ci\<close> raises, and when the constructor was entered with an exception
  pending).
\<close>

theorem async_init_cancellable:
  assumes f: "type_check rt f (PyGICallableInfo_Type rt)"
      and ci: "init_cancellable_info rt st = (Some ci, st1)"
  shows
    "(\<not> type_check rt c (PyGObject_Type rt) \<longrightarrow>
        fst (async_init rt self [f] [(''cancellable'', c)] st) = - 1
        \<and> curexc (snd (snd (async_init rt self [f] [(''cancellable'', c)] st)))
            = Some (PyErr (PyExc ''TypeError'') None None))
     \<and> (type_check rt c (PyGObject_Type rt) \<and> is_instance rt c ci = Inr False \<longrightarrow>
        fst (async_init rt self [f] [(''cancellable'', c)] st) = - 1
        \<and> curexc (snd (snd (async_init rt self [f] [(''cancellable'', c)] st)))
            = Some (PyErr (PyExc ''TypeError'')
                (Some (PyUnicode ''cancellable argument needs to be of type Gio.Cancellable''))
                None))
     \<and> (type_check rt c (PyGObject_Type rt) \<and> is_instance rt c ci = Inr True \<longrightarrow>
        cancellable (fst (snd (async_init rt self [f] [(''cancellable'', c)] st))) = Some c
        \<and> calls (snd (snd (async_init rt self [f] [(''cancellable'', c)] st)))
            = calls st @ [Call (asyncio_get_event_loop st) [] None])
     \<and> (cancellable self = None \<longrightarrow>
        cancellable (fst (snd (async_init rt self [f] [] st)))
          = (case object_call rt (calls st) (Call ci [] None) of
               Inl e \<Rightarrow> None
             | Inr v \<Rightarrow> if curexc st = None then Some v else None)
        \<and> calls (snd (snd (async_init rt self [f] [] st)))
            = calls st @ [Call ci [] None, Call (asyncio_get_event_loop st) [] None])"
  using f ci init_cancellable_info_calls [OF ci] init_cancellable_info_curexc [OF ci]
  by (auto simp: async_init_def parse_init_def PyObject_IsInstance_def PyErr_SetString_def
      PyErr_SetObject_def PyObject_CallObject_def PyObject_Call_def Py_CheckFunctionResult_def
      PyErr_Occurred_def Py_INCREF_def Py_DECREF_def Let_def
      split: option.splits sum.splits prod.splits)

theorem async_init_cancellable_witness:
  "fst (async_init example_runtime allocated_future [PyObj 3] [(''cancellable'', PyObj 7)]
          example_interp) = - 1
   \<and> curexc (snd (snd (async_init example_runtime allocated_future [PyObj 3]
          [(''cancellable'', PyObj 7)] example_interp)))
       = Some (PyErr (PyExc ''TypeError'') None None)
   \<and> fst (async_init example_runtime allocated_future [PyObj 3] [(''cancellable'', PyObj 44)]
          example_interp) = - 1
   \<and> curexc (snd (snd (async_init example_runtime allocated_future [PyObj 3]
          [(''cancellable'', PyObj 44)] example_interp)))
       = Some (PyErr (PyExc ''TypeError'')
           (Some (PyUnicode ''cancellable argument needs to be of type Gio.Cancellable'')) None)
   \<and> cancellable (fst (snd (async_init example_runtime allocated_future [PyObj 3]
          [(''cancellable'', PyObj 43)] example_interp))) = Some (PyObj 43)
   \<and> cancellable (fst (snd (async_init example_runtime allocated_future [PyObj 3] []
          example_interp))) = Some (PyObj 42)
   \<and> calls (snd (snd (async_init example_runtime allocated_future [PyObj 3] []
          example_interp))) = [Call (PyObj 41) [] None, Call (PyObj 50) [] None]"
proof -
  have f: "type_check example_runtime (PyObj 3) (PyGICallableInfo_Type example_runtime)"
    by (simp add: example_runtime_def)
  have ci: "init_cancellable_info example_runtime example_interp
      = (Some (PyObj 41), snd (init_cancellable_info example_runtime example_interp))"
    by (simp add: init_cancellable_info_def example_runtime_def example_interp_def
        PyImport_ImportModule_def PyObject_GetAttrString_def)
  show ?thesis
    using async_init_cancellable [OF f ci, of "PyObj 7" allocated_future]
      async_init_cancellable [OF f ci, of "PyObj 44" allocated_future]
      async_init_cancellable [OF f ci, of "PyObj 43" allocated_future]
    by (simp add: example_runtime_def example_interp_def allocated_future_def)
qed

subsection \<open>Registering callbacks\<close>

text \<open>
  Claim C5. Take a well-formed call \<open>add_done_callback(f)\<close> or
  \<open>add_done_callback(f, context=c)\<close> in a build with context support. On a future that
  is done, whose loop has a \<open>call_soon\<close> attribute \<open>cs\<close>, the only call made is
  \<open>cs(f, self)\<close>: the callback is handed to the loop and is not called, the registry
  is left alone, and the function returns \<open>None\<close> when the loop accepted the callback
  and NULL (with the loop's exception) when it did not, or when the function was entered
  with an exception pending. On a future that is not done no
  call is made at all: the pair of \<open>f\<close> and the context (the one given, or else a copy
  of the current one) is appended to the registry and \<open>None\<close> is returned.
\<close>

theorem add_done_callback_schedules_or_registers:
  assumes ctx: "has_context rt"
      and parse: "parse_add_done_callback args kwargs = Some (f, given)"
  shows
    "(is_done self \<and> loop self = Some l \<and> getattr_string rt l ''call_soon'' = Inr cs \<longrightarrow>
        (\<exists>st'. async_add_done_callback rt self args kwargs st
             = Fin (case object_call rt (calls st) (Call cs [f, ob_self self] None) of
                      Inl e \<Rightarrow> None
                    | Inr handle \<Rightarrow> if curexc st = None then Some Py_None else None,
                    self, st')
           \<and> calls st' = calls st @ [Call cs [f, ob_self self] None]))
     \<and> (\<not> is_done self \<longrightarrow>
        (\<exists>st'. async_add_done_callback rt self args kwargs st
             = Fin (Some Py_None,
                 self\<lparr>callbacks := Some ((case callbacks self of None \<Rightarrow> [] | Some a \<Rightarrow> a)
                   @ [\<lparr>cb_func = f,
                       cb_context = Some (case given of
                                            None \<Rightarrow> context_copy rt (current_context st)
                                          | Some c \<Rightarrow> c)\<rparr>])\<rparr>,
                 st')
           \<and> calls st' = calls st \<and> curexc st' = curexc st))"
  using ctx parse
  by (auto simp: async_add_done_callback_def call_soon_def callback_decref_def
      PyObject_GetAttrString_def PyObject_Call_def Py_CheckFunctionResult_def
      PyErr_Occurred_def PyErr_SetString_def PyErr_SetObject_def PyContext_CopyCurrent_def
      Py_CLEAR_def Py_INCREF_def Py_DECREF_def Let_def
      split: option.splits sum.splits prod.splits)

theorem add_done_callback_schedules_or_registers_witness:
  "(\<exists>st'. async_add_done_callback example_runtime resolved_future [PyObj 22] [] example_interp
        = Fin (Some Py_None, resolved_future, st')
      \<and> calls st' = [Call (PyObj 11) [PyObj 22, PyObj 1] None])
   \<and> (\<exists>st'. async_add_done_callback example_runtime pending_future [PyObj 22]
          [(''context'', PyObj 32)] example_interp
        = Fin (Some Py_None,
            pending_future\<lparr>callbacks := Some [\<lparr>cb_func = PyObj 22, cb_context = Some (PyObj 32)\<rparr>]\<rparr>,
            st')
      \<and> calls st' = [])
   \<and> (\<exists>st'. async_add_done_callback example_runtime pending_future [PyObj 22] [] example_interp
        = Fin (Some Py_None,
            pending_future\<lparr>callbacks := Some [\<lparr>cb_func = PyObj 22, cb_context = Some (PyObj 31)\<rparr>]\<rparr>,
            st')
      \<and> calls st' = [])"
proof -
  have ctx: "has_context example_runtime"
    by (simp add: has_context_def example_runtime_def)
  have p1: "parse_add_done_callback [PyObj 22] [] = Some (PyObj 22, None)"
    by (simp add: parse_add_done_callback_def)
  have p2: "parse_add_done_callback [PyObj 22] [(''context'', PyObj 32)]
      = Some (PyObj 22, Some (PyObj 32))"
    by (simp add: parse_add_done_callback_def)
  have fut: "is_done resolved_future" "loop resolved_future = Some (PyObj 10)"
    "ob_self resolved_future = PyObj 1" "\<not> is_done pending_future"
    "callbacks pending_future = None"
    by (simp_all add: is_done_def non_null_def resolved_future_def pending_future_def)
  have env: "getattr_string example_runtime (PyObj 10) ''call_soon'' = Inr (PyObj 11)"
    "object_call example_runtime [] (Call (PyObj 11) [PyObj 22, PyObj (Suc 0)] None) = Inr (PyObj 12)"
    "context_copy example_runtime (PyObj 30) = PyObj 31"
    "calls example_interp = []" "current_context example_interp = PyObj 30"
    "curexc example_interp = None"
    by (simp_all add: example_runtime_def example_interp_def)
  show ?thesis
    using add_done_callback_schedules_or_registers [OF ctx p1,
        of resolved_future "PyObj 10" "PyObj 11" example_interp]
      add_done_callback_schedules_or_registers [OF ctx p2, of pending_future _ _ example_interp]
      add_done_callback_schedules_or_registers [OF ctx p1, of pending_future _ _ example_interp]
    by (auto simp: fut env)
qed

subsection \<open>Removing callbacks\<close>

lemma callback_decref_step:
  "has_context rt \<longrightarrow> cb_context cb \<noteq> None \<Longrightarrow>
   \<exists>st'. callback_decref rt cb st = Fin st' \<and> curexc st' = curexc st \<and> calls st' = calls st"
  by (auto simp: callback_decref_def Py_DECREF_def Let_def split: option.splits)

lemma take_remove_index: "i < length a \<Longrightarrow> take i (g_array_remove_index a i) = take i a"
  by (simp add: g_array_remove_index_def)

lemma drop_remove_index: "i < length a \<Longrightarrow> drop i (g_array_remove_index a i) = drop (Suc i) a"
  by (simp add: g_array_remove_index_def)

lemma set_remove_index: "set (g_array_remove_index a i) \<subseteq> set a"
  by (auto simp: g_array_remove_index_def dest: in_set_takeD in_set_dropD)

text \<open>Whatever the comparisons do, the loop only takes entries away.\<close>

lemma remove_loop_subset:
  "remove_loop rt fn cbs i removed st = Fin (cbs', n, st') \<Longrightarrow> set cbs' \<subseteq> set cbs"
proof (induction rt fn cbs i removed st rule: remove_loop.induct)
  case (1 rt fn cbs i removed st)
  show ?case
  proof (cases "i < length cbs")
    case False
    with "1.prems" show ?thesis
      by (subst (asm) remove_loop.simps) simp
  next
    case inside: True
    show ?thesis
    proof (cases "fst (PyObject_RichCompareBool rt (cb_func (cbs ! i)) fn st) = 1")
      case True
      show ?thesis
      proof (cases "callback_decref rt (cbs ! i)
          (snd (PyObject_RichCompareBool rt (cb_func (cbs ! i)) fn st))")
        case Crash
        with "1.prems" inside True show ?thesis
          by (subst (asm) remove_loop.simps) simp
      next
        case (Fin st2)
        with "1.prems" inside True
        have "remove_loop rt fn (g_array_remove_index cbs i) i (removed + 1) st2
            = Fin (cbs', n, st')"
          by (subst (asm) remove_loop.simps) simp
        from "1.IH"(1) [OF inside True Fin this] set_remove_index [of cbs i]
        show ?thesis by blast
      qed
    next
      case False
      with "1.prems" inside
      have "remove_loop rt fn cbs (i + 1) removed
          (snd (PyObject_RichCompareBool rt (cb_func (cbs ! i)) fn st)) = Fin (cbs', n, st')"
        by (subst (asm) remove_loop.simps) simp
      from "1.IH"(2) [OF inside False this] show ?thesis .
    qed
  qed
qed

text \<open>With context support every entry of the registry carries a context:
  \<open>add_done_callback\<close> appends only such entries and \<open>remove_done_callback\<close> only
  takes entries away.\<close>

lemma add_done_callback_keeps_contexts:
  assumes "has_context rt"
    and "async_add_done_callback rt self args kwargs st = Fin (ret, self', st')"
    and "list_all (\<lambda>cb. cb_context cb \<noteq> None)
           (case callbacks self of None \<Rightarrow> [] | Some a \<Rightarrow> a)"
  shows "list_all (\<lambda>cb. cb_context cb \<noteq> None)
           (case callbacks self' of None \<Rightarrow> [] | Some a \<Rightarrow> a)"
  using assms
  by (auto simp: async_add_done_callback_def PyContext_CopyCurrent_def Let_def
      split: option.splits sum.splits prod.splits if_splits exec.splits)

lemma remove_done_callback_keeps_contexts:
  assumes "async_remove_done_callback rt self fn st = Fin (ret, self', st')"
    and "list_all (\<lambda>cb. cb_context cb \<noteq> None)
           (case callbacks self of None \<Rightarrow> [] | Some a \<Rightarrow> a)"
  shows "list_all (\<lambda>cb. cb_context cb \<noteq> None)
           (case callbacks self' of None \<Rightarrow> [] | Some a \<Rightarrow> a)"
proof (cases "callbacks self")
  case None
  with assms show ?thesis by (simp add: async_remove_done_callback_def)
next
  case (Some cbs)
  with assms(1) obtain cbs' n where "remove_loop rt fn cbs 0 0 st = Fin (cbs', n, st')"
    and "callbacks self' = Some cbs'"
    by (auto simp: async_remove_done_callback_def split: exec.splits)
  with assms(2) Some remove_loop_subset [of rt fn cbs 0 0 st cbs' n st'] show ?thesis
    by (auto simp: list_all_iff)
qed

text \<open>
  With no exception pending, a comparison that does not raise leaves the interpreter
  as it was, so the next comparison is again made with no exception pending. If that
  holds of every entry, the loop is a filter: from index \<open>i\<close> on it keeps the entries
  that do not compare equal and counts the others.
\<close>

lemma RichCompareBool_quiet:
  "curexc st = None \<Longrightarrow> compares_quietly rt v w \<Longrightarrow>
   PyObject_RichCompareBool rt v w st = (if compares_equal rt v w then 1 else 0, st)"
  by (auto simp: PyObject_RichCompareBool_def compares_equal_def compares_quietly_def
      split: sum.splits)

lemma remove_loop_filter:
  "curexc st = None \<Longrightarrow>
   has_context rt \<longrightarrow> list_all (\<lambda>cb. cb_context cb \<noteq> None) cbs \<Longrightarrow>
   list_all (\<lambda>cb. compares_quietly rt (cb_func cb) fn) cbs \<Longrightarrow>
   \<exists>st'. remove_loop rt fn cbs i removed st
     = Fin (take i cbs @ filter (\<lambda>cb. \<not> compares_equal rt (cb_func cb) fn) (drop i cbs),
            removed + int (length (filter (\<lambda>cb. compares_equal rt (cb_func cb) fn) (drop i cbs))),
            st')
     \<and> curexc st' = None \<and> calls st' = calls st"
proof (induction rt fn cbs i removed st rule: remove_loop.induct)
  case (1 rt fn cbs i removed st)
  show ?case
  proof (cases "i < length cbs")
    case False
    then show ?thesis using "1.prems"(1) by (subst remove_loop.simps) simp
  next
    case inside: True
    then have split: "drop i cbs = cbs ! i # drop (Suc i) cbs"
      by (simp add: Cons_nth_drop_Suc)
    have ctx: "has_context rt \<longrightarrow> cb_context (cbs ! i) \<noteq> None"
      using "1.prems"(2) inside by (simp add: list_all_length)
    have "compares_quietly rt (cb_func (cbs ! i)) fn"
      using "1.prems"(3) inside by (simp add: list_all_length)
    then have cmp: "PyObject_RichCompareBool rt (cb_func (cbs ! i)) fn st
        = (if compares_equal rt (cb_func (cbs ! i)) fn then 1 else 0, st)"
      using "1.prems"(1) by (rule RichCompareBool_quiet [rotated])
    show ?thesis
    proof (cases "compares_equal rt (cb_func (cbs ! i)) fn")
      case True
      then have one: "fst (PyObject_RichCompareBool rt (cb_func (cbs ! i)) fn st) = 1"
        by (simp add: cmp)
      obtain st2 where dec: "callback_decref rt (cbs ! i)
          (snd (PyObject_RichCompareBool rt (cb_func (cbs ! i)) fn st)) = Fin st2"
        and st2: "curexc st2 = None" "calls st2 = calls st"
        using callback_decref_step [OF ctx, of st] "1.prems"(1) by (auto simp: cmp)
      have rest: "has_context rt \<longrightarrow>
          list_all (\<lambda>cb. cb_context cb \<noteq> None) (g_array_remove_index cbs i)"
        "list_all (\<lambda>cb. compares_quietly rt (cb_func cb) fn) (g_array_remove_index cbs i)"
        using "1.prems"(2,3) set_remove_index [of cbs i] by (auto simp: list_all_iff)
      from "1.IH"(1) [OF inside one dec st2(1) rest]
      show ?thesis
        using inside one dec True split st2
        by (subst remove_loop.simps) (simp add: take_remove_index drop_remove_index add.assoc)
    next
      case False
      then have other: "fst (PyObject_RichCompareBool rt (cb_func (cbs ! i)) fn st) \<noteq> 1"
        by (simp add: cmp)
      have same: "snd (PyObject_RichCompareBool rt (cb_func (cbs ! i)) fn st) = st"
        by (simp add: cmp)
      from "1.IH"(2) [OF inside other] "1.prems"
      show ?thesis
        using inside other False split
        by (subst remove_loop.simps) (simp add: take_Suc_conv_app_nth same)
    qed
  qed
qed

text \<open>
  Claim C6. Take a call of \<open>remove_done_callback(fn)\<close> that is entered with no
  exception pending, on a registry whose entries all carry a context (in a build with
  context support) and none of whose callbacks raises when compared with \<open>fn\<close>. It
  returns the number of entries whose callback compares equal to \<open>fn\<close>, that is, is
  \<open>fn\<close> itself or answers \<open>==\<close> with true, and leaves exactly the other entries in the
  registry, in their order. It makes no call and leaves no exception pending, so the
  count is what the caller of the method receives. When no entry compares equal, or
  there is no registry, it returns 0 and the struct is unchanged.
\<close>

theorem remove_done_callback_removes_equal:
  assumes quiet: "curexc st = None"
    and wf: "has_context rt \<longrightarrow> list_all (\<lambda>cb. cb_context cb \<noteq> None) cbs"
    and cmp: "list_all (\<lambda>cb. compares_quietly rt (cb_func cb) fn) cbs"
  shows
    "(callbacks self = Some cbs \<longrightarrow>
        (\<exists>st'. async_remove_done_callback rt self fn st
           = Fin (Some (PyLong (int (length
                    (filter (\<lambda>cb. compares_equal rt (cb_func cb) fn) cbs)))),
                  self\<lparr>callbacks :=
                    Some (filter (\<lambda>cb. \<not> compares_equal rt (cb_func cb) fn) cbs)\<rparr>,
                  st')
           \<and> curexc st' = None \<and> calls st' = calls st
           \<and> Py_CheckFunctionResult (Some (PyLong (int (length
                    (filter (\<lambda>cb. compares_equal rt (cb_func cb) fn) cbs))))) st'
               = (Some (PyLong (int (length
                    (filter (\<lambda>cb. compares_equal rt (cb_func cb) fn) cbs)))), st')))
     \<and> (callbacks self = Some cbs
          \<and> list_all (\<lambda>cb. \<not> compares_equal rt (cb_func cb) fn) cbs \<longrightarrow>
        (\<exists>st'. async_remove_done_callback rt self fn st = Fin (Some (PyLong 0), self, st')
           \<and> curexc st' = None \<and> calls st' = calls st))
     \<and> (callbacks self = None \<longrightarrow>
        async_remove_done_callback rt self fn st = Fin (Some (PyLong 0), self, st))"
proof -
  obtain st' where loop: "remove_loop rt fn cbs 0 0 st
      = Fin (filter (\<lambda>cb. \<not> compares_equal rt (cb_func cb) fn) cbs,
             int (length (filter (\<lambda>cb. compares_equal rt (cb_func cb) fn) cbs)), st')"
    and after: "curexc st' = None" "calls st' = calls st"
    using remove_loop_filter [OF quiet wf cmp, where i = 0 and removed = 0] by auto
  have none: "list_all (\<lambda>cb. \<not> compares_equal rt (cb_func cb) fn) cbs \<Longrightarrow>
      filter (\<lambda>cb. \<not> compares_equal rt (cb_func cb) fn) cbs = cbs
      \<and> filter (\<lambda>cb. compares_equal rt (cb_func cb) fn) cbs = []"
    by (simp add: list_all_iff)
  show ?thesis
    using loop after none
    by (auto simp: async_remove_done_callback_def Py_CheckFunctionResult_def
        PyErr_Occurred_def)
qed

theorem remove_done_callback_removes_equal_witness:
  "(\<exists>st'. async_remove_done_callback example_runtime
             (pending_future\<lparr>callbacks := Some example_registry\<rparr>) (PyObj 22) example_interp
        = Fin (Some (PyLong 2),
               pending_future\<lparr>callbacks :=
                 Some [\<lparr>cb_func = PyObj 21, cb_context = Some (PyObj 32)\<rparr>]\<rparr>,
               st')
      \<and> curexc st' = None \<and> calls st' = []
      \<and> Py_CheckFunctionResult (Some (PyLong 2)) st' = (Some (PyLong 2), st'))
   \<and> (\<exists>st'. async_remove_done_callback example_runtime
             (pending_future\<lparr>callbacks := Some example_registry\<rparr>) (PyObj 99) example_interp
        = Fin (Some (PyLong 0), pending_future\<lparr>callbacks := Some example_registry\<rparr>, st'))
   \<and> async_remove_done_callback example_runtime pending_future (PyObj 22) example_interp
        = Fin (Some (PyLong 0), pending_future, example_interp)"
proof -
  have quiet: "curexc example_interp = None"
    by (simp add: example_interp_def)
  have wf: "has_context example_runtime \<longrightarrow>
      list_all (\<lambda>cb. cb_context cb \<noteq> None) example_registry"
    by (simp add: example_registry_def)
  have cmp: "list_all (\<lambda>cb. compares_quietly example_runtime (cb_func cb) (PyObj 22))
      example_registry"
    "list_all (\<lambda>cb. compares_quietly example_runtime (cb_func cb) (PyObj 99))
      example_registry"
    by (simp_all add: example_registry_def compares_quietly_def example_runtime_def)
  have hit: "filter (\<lambda>cb. compares_equal example_runtime (cb_func cb) (PyObj 22))
        example_registry
      = [\<lparr>cb_func = PyObj 24, cb_context = Some (PyObj 31)\<rparr>,
         \<lparr>cb_func = PyObj 22, cb_context = Some (PyObj 31)\<rparr>]"
    "filter (\<lambda>cb. \<not> compares_equal example_runtime (cb_func cb) (PyObj 22))
        example_registry
      = [\<lparr>cb_func = PyObj 21, cb_context = Some (PyObj 32)\<rparr>]"
    by (simp_all add: example_registry_def compares_equal_def example_runtime_def)
  have miss: "list_all (\<lambda>cb. \<not> compares_equal example_runtime (cb_func cb) (PyObj 99))
      example_registry"
    by (simp add: example_registry_def compares_equal_def example_runtime_def)
  have reg: "callbacks (pending_future\<lparr>callbacks := Some example_registry\<rparr>)
      = Some example_registry" "callbacks pending_future = None"
    "calls example_interp = []"
    by (simp_all add: pending_future_def example_interp_def)
  show ?thesis
    using remove_done_callback_removes_equal [OF quiet wf cmp(1),
        where self = "pending_future\<lparr>callbacks := Some example_registry\<rparr>"]
      remove_done_callback_removes_equal [OF quiet wf cmp(2),
        where self = "pending_future\<lparr>callbacks := Some example_registry\<rparr>"]
      remove_done_callback_removes_equal [OF quiet wf cmp(1), where self = pending_future]
    by (auto simp: hit miss reg)
qed

subsection \<open>A comparison that raises\<close>

lemmas api_defs = Py_INCREF_def Py_DECREF_def Py_XDECREF_def PyErr_Occurred_def
  PyErr_SetObject_def PyErr_SetString_def PyErr_Fetch_def PyErr_PrintEx_def
  PyObject_GetAttrString_def PyObject_Call_def PyObject_CallFunction_def
  PyGILState_Ensure_def PyGILState_Release_def Py_IsInitialized_def pygobject_new_full_def
  wrap_g_callable_info_invoke_def PyDict_New_def PyDict_SetItemString_def Py_CLEAR_def
  has_context_def PyObject_RichCompareBool_def Py_CheckFunctionResult_def

text \<open>
  Claim C10, on the registry that holds the one callback \<open>PyObj 23\<close>, whose comparison
  with anything raises. \<open>remove_done_callback(PyObj 22)\<close> keeps the entry and returns
  the count 0, as claimed, but it returns with the comparison's exception still in the
  error indicator: the result -1 of \<^verbatim>\<open>PyObject_RichCompareBool\<close> is only tested against
  1, and nothing clears or reports the exception it announces. The interpreter turns a
  result returned with an exception set into SystemError, so the caller of the method
  gets an error and no count.
\<close>

theorem remove_leaves_error_set:
  "\<exists>st'. async_remove_done_callback example_runtime
       (pending_future\<lparr>callbacks :=
          Some [\<lparr>cb_func = PyObj 23, cb_context = Some (PyObj 31)\<rparr>]\<rparr>)
       (PyObj 22) example_interp
     = Fin (Some (PyLong 0),
            pending_future\<lparr>callbacks :=
              Some [\<lparr>cb_func = PyObj 23, cb_context = Some (PyObj 31)\<rparr>]\<rparr>,
            st')
     \<and> curexc st' = Some (PyErr (PyExc ''RuntimeError'') None None)
     \<and> fst (Py_CheckFunctionResult (Some (PyLong 0)) st') = None
     \<and> curexc (snd (Py_CheckFunctionResult (Some (PyLong 0)) st'))
         = Some (PyErr (PyExc ''SystemError'')
             (Some (PyUnicode ''returned a result with an exception set'')) None)"
  by (simp add: async_remove_done_callback_def remove_loop.simps callback_decref_def
      api_defs example_runtime_def example_interp_def pending_future_def Let_def)

subsection \<open>The completion handler: storing the outcome\<close>

text \<open>When the finish function returned, its value becomes the result.\<close>

lemma finish_store_returned:
  "curexc st = None \<Longrightarrow> finish_store rt self ret st = Fin (self\<lparr>result := ret\<rparr>, st)"
  by (simp add: finish_store_def)

text \<open>The two formats used to instantiate the raised class are well formed. The
  message of the fallback stands where the format belongs: \<open>I\<close> and \<open>n\<close> are units for
  integers, \<open>v\<close> is no unit, so the call returns NULL with SystemError.\<close>

lemma CallFunction_instantiate:
  "PyObject_CallFunction rt f [] [] st = Fin (PyObject_Call rt f (instance_args None) None st)"
  "PyObject_CallFunction rt f ''O'' [v] st
     = Fin (PyObject_Call rt f (instance_args (Some v)) None st)"
  by (cases v; simp add: PyObject_CallFunction_def do_mkvalue_def instance_args_def)+

lemma CallFunction_message:
  "PyObject_CallFunction rt f ''Invalid exception from _finish function call!'' [] st
     = Fin (None, PyErr_SetString (PyExc ''SystemError'')
                    ''bad format char passed to Py_BuildValue'' st)"
  by (simp add: PyObject_CallFunction_def do_mkvalue_def integer_units_def other_units_def)

text \<open>When the finish function raised and the raised class can be called (with the
  raised value, if there is one), the instance it returns becomes the exception.\<close>

lemma finish_store_raised:
  assumes "curexc st = Some (PyErr exc val tb)"
    and "object_call rt (calls st) (Call exc (instance_args val) None) = Inr x"
  shows "\<exists>st'. finish_store rt self ret st = Fin (self\<lparr>exception := Some x\<rparr>, st')
           \<and> curexc st' = None"
  using assms
  by (auto simp: finish_store_def CallFunction_instantiate PyObject_Call_def
      Py_CheckFunctionResult_def PyErr_Occurred_def
      PyErr_Fetch_def Py_XDECREF_def Py_INCREF_def Py_DECREF_def Let_def
      split: option.splits)

text \<open>When that call fails, the fallback fails as well and \<^verbatim>\<open>g_assert\<close> ends the
  process.\<close>

lemma finish_store_fallback_aborts:
  assumes "curexc st = Some (PyErr exc val tb)"
    and "object_call rt (calls st) (Call exc (instance_args val) None) = Inl e"
  shows "finish_store rt self ret st = Crash"
  using assms
  by (auto simp: finish_store_def CallFunction_instantiate CallFunction_message
      PyObject_Call_def PyErr_Fetch_def Py_XDECREF_def Py_INCREF_def Py_DECREF_def Let_def
      split: option.splits)

text \<open>
  Claim C2, on a future whose finish function raises the class \<open>PyObj 70\<close>, which cannot
  be instantiated. The claim has a TypeError instance stored as the exception; the
  handler aborts instead. (The other two cases of the claim hold: see
  \<open>finish_store_returned\<close> and \<open>finish_store_raised\<close>.)
\<close>

theorem finish_cb_aborts:
  "pygi_async_finish_cb example_runtime None 7
     (pending_future\<lparr>finish_func := Some (PyObj 6)\<rparr>) example_interp = Crash"
  by (simp add: pygi_async_finish_cb_def finish_store_def call_soon_def callback_decref_def
      api_defs example_runtime_def example_interp_def pending_future_def Let_def
      do_mkvalue_def integer_units_def other_units_def)

subsection \<open>The completion handler: draining the registry\<close>

lemma call_soon_step:
  assumes "loop self = Some l" and "getattr_string rt l ''call_soon'' = Inr cs"
    and "has_context rt \<longrightarrow> cb_context cb \<noteq> None" and "curexc st = None"
  shows "\<exists>ret st'. call_soon rt self cb st = Fin (ret, st')
           \<and> calls st' = calls st @ [Call cs [cb_func cb, ob_self self] None]
           \<and> (ret \<noteq> None \<longrightarrow> curexc st' = None)
           \<and> (ret = None \<longrightarrow>
                (\<exists>e. object_call rt (calls st) (Call cs [cb_func cb, ob_self self] None) = Inl e
                   \<and> curexc st' = Some e))"
  using assms
  by (auto simp: call_soon_def PyObject_GetAttrString_def PyObject_Call_def
      Py_CheckFunctionResult_def PyErr_Occurred_def Py_CLEAR_def
      Py_INCREF_def Py_DECREF_def Let_def split: option.splits sum.splits)

text \<open>
  Started without a pending exception, on a loop that has \<open>call_soon\<close> and does not
  answer it with SystemExit, the loop over the registry passes every entry to
  \<open>call_soon\<close>, in order, whether or not an earlier \<open>call_soon\<close> raised (\<^verbatim>\<open>PyErr_PrintEx\<close>
  has cleared the indicator before the next entry is looked at), and every time without
  keyword arguments. It then runs to the end and leaves no exception pending.
\<close>

lemma finish_notify_schedules_all:
  assumes "loop self = Some l" and "getattr_string rt l ''call_soon'' = Inr cs"
    and no_exit: "\<And>before c e. object_call rt before c = Inl e
                   \<Longrightarrow> exc_type e \<noteq> PyExc ''SystemExit''"
  shows "curexc st = None \<Longrightarrow>
         has_context rt \<longrightarrow> list_all (\<lambda>cb. cb_context cb \<noteq> None) cbs \<Longrightarrow>
         \<exists>st'. finish_notify rt self cbs st = Fin st' \<and> curexc st' = None
           \<and> calls st' = calls st @ map (\<lambda>cb. Call cs [cb_func cb, ob_self self] None) cbs"
proof (induction cbs arbitrary: st)
  case Nil
  then show ?case by simp
next
  case (Cons cb cbs)
  have ctx: "has_context rt \<longrightarrow> cb_context cb \<noteq> None"
    using Cons.prems(2) by simp
  obtain ret st1 where soon: "call_soon rt self cb st = Fin (ret, st1)"
    and calls1: "calls st1 = calls st @ [Call cs [cb_func cb, ob_self self] None]"
    and ok1: "ret \<noteq> None \<longrightarrow> curexc st1 = None"
    and bad1: "ret = None \<longrightarrow>
        (\<exists>e. object_call rt (calls st) (Call cs [cb_func cb, ob_self self] None) = Inl e
           \<and> curexc st1 = Some e)"
    using call_soon_step [OF assms(1,2) ctx Cons.prems(1)] by blast
  obtain st2 where step: "(case ret of None \<Rightarrow> PyErr_PrintEx False st1
                            | Some r \<Rightarrow> Fin (Py_DECREF r st1)) = Fin st2"
    and st2: "curexc st2 = None" "calls st2 = calls st1"
    using ok1 bad1 no_exit
    by (cases ret) (auto simp: PyErr_PrintEx_def Py_DECREF_def)
  obtain st3 where dec: "callback_decref rt cb st2 = Fin st3"
    and st3: "curexc st3 = curexc st2" "calls st3 = calls st2"
    using callback_decref_step [OF ctx, of st2] by blast
  have rest: "has_context rt \<longrightarrow> list_all (\<lambda>cb. cb_context cb \<noteq> None) cbs"
    using Cons.prems(2) by simp
  obtain st' where fin: "finish_notify rt self cbs st3 = Fin st'" and "curexc st' = None"
    and "calls st' = calls st3 @ map (\<lambda>cb. Call cs [cb_func cb, ob_self self] None) cbs"
    using Cons.IH [OF _ rest, of st3] st3 st2 by auto
  moreover have "finish_notify rt self (cb # cbs) st = finish_notify rt self cbs st3"
    using soon dec step Cons.prems(1)
    by (cases ret) (auto simp: PyErr_Occurred_def)
  ultimately show ?case
    using calls1 st2 st3 by simp
qed

text \<open>
  Claim C1, on a registry of two entries where scheduling the first one raises. The
  handler returns, the result is stored, the registry is cleared, both entries are
  released and the exception is printed, as claimed; but the second callback is
  scheduled as well, which the claim (and the comment in the loop) rules out.
\<close>

theorem finish_cb_schedules_after_failure:
  "\<exists>self' st'.
     pygi_async_finish_cb example_runtime None 7
       (pending_future\<lparr>callbacks :=
          Some [\<lparr>cb_func = PyObj 21, cb_context = Some (PyObj 31)\<rparr>,
                \<lparr>cb_func = PyObj 22, cb_context = Some (PyObj 32)\<rparr>]\<rparr>)
       example_interp = Fin (self', st')
     \<and> result self' = Some (PyLong 42) \<and> callbacks self' = None
     \<and> calls st' = [Call (PyObj 11) [PyObj 21, PyObj 1] None,
                     Call (PyObj 11) [PyObj 22, PyObj 1] None]
     \<and> stderr_log st'
         = [PyErr (PyExc ''RuntimeError'') (Some (PyUnicode ''Event loop is closed'')) None]
     \<and> curexc st' = None
     \<and> ob_refcnt st' (PyObj 21) = ob_refcnt example_interp (PyObj 21) - 1
     \<and> ob_refcnt st' (PyObj 31) = ob_refcnt example_interp (PyObj 31) - 1
     \<and> ob_refcnt st' (PyObj 22) = ob_refcnt example_interp (PyObj 22) - 1
     \<and> ob_refcnt st' (PyObj 32) = ob_refcnt example_interp (PyObj 32) - 1"
  by (simp add: pygi_async_finish_cb_def finish_store_def call_soon_def callback_decref_def
      api_defs example_runtime_def example_interp_def pending_future_def Let_def)

text \<open>
  Claim C4, on a callback registered with \<open>context=PyObj 32\<close> while the future is
  pending. The context is stored with the callback at registration, as claimed; when
  the handler schedules the callback, \<open>call_soon\<close> is called without keyword arguments,
  so the context does not reach the loop: the dictionary that holds it is cleared
  before the call.
\<close>

theorem context_not_passed_to_call_soon:
  "\<exists>self1 st1 self2 st2.
     async_add_done_callback example_runtime pending_future [PyObj 22]
       [(''context'', PyObj 32)] example_interp = Fin (Some Py_None, self1, st1)
     \<and> callbacks self1 = Some [\<lparr>cb_func = PyObj 22, cb_context = Some (PyObj 32)\<rparr>]
     \<and> pygi_async_finish_cb example_runtime None 7 self1 st1 = Fin (self2, st2)
     \<and> calls st2 = [Call (PyObj 11) [PyObj 22, PyObj 1] None]"
  by (simp add: async_add_done_callback_def parse_add_done_callback_def is_done_def
      non_null_def pygi_async_finish_cb_def finish_store_def call_soon_def callback_decref_def
      api_defs example_runtime_def example_interp_def pending_future_def Let_def)

end
